theory Spec2Isabelle
  imports
    Main
    "HOL-Library.Sublist"
    "HOL-Library.List_Lexorder"
    "HOL-Library.Product_Lexorder"
    "HOL-Library.Multiset"
begin

section \<open>The demo MCP filesystem server (filesystem\_server.py)\<close>

text \<open>
  A shallow embedding of the class \<open>MCPFilesystemServer\<close>. Every Python function that can
  raise returns a sum \<open>exn + 'a\<close> (\<open>Inl\<close> is the raised exception); the operating
  system is a record of operations over an abstract world state \<open>'w\<close>, so every theorem holds
  for whatever the file system answers. Arguments are taken at their declared types
  (\<open>path: str\<close>, \<open>content: str\<close>, \<open>tool_name: str\<close>), with \<open>None\<close> for what
  \<open>dict.get\<close> returns on an absent key or a JSON \<open>null\<close>. A request, its \<open>params\<close>
  and its \<open>arguments\<close> may each be a JSON value that is not an object.
\<close>

subsection \<open>Python strings\<close>

text \<open>
  A Python \<open>str\<close> is a sequence of Unicode code points: \<open>len\<close> counts code points and
  comparison is lexicographic on them. It is modelled as a list of naturals; \<open>u\<close> embeds an
  ASCII literal. The order on lists is the lexicographic one of \<open>List_Lexorder\<close>.
\<close>

type_synonym pystr = "nat list"

definition u :: "string \<Rightarrow> pystr" where
  "u s = map of_char s"

definition nl :: pystr where
  "nl = [10]"

definition sep :: pystr where
  "sep = [47]"

definition startswith :: "pystr \<Rightarrow> pystr \<Rightarrow> bool" where
  "startswith s pre = prefix pre s"

definition endswith :: "pystr \<Rightarrow> pystr \<Rightarrow> bool" where
  "endswith s suf = suffix suf s"

text \<open>The apostrophe, code point 39.\<close>

definition apostrophe :: pystr where
  "apostrophe = [39]"

text \<open>\<open>s.split('/')\<close>: the pieces between separators; never the empty list.\<close>

fun split_sep :: "pystr \<Rightarrow> pystr list" where
  "split_sep [] = [[]]"
| "split_sep (c # cs) =
     (if c = 47 then [] # split_sep cs
      else (case split_sep cs of [] \<Rightarrow> [[c]] | x # xs \<Rightarrow> (c # x) # xs))"

text \<open>\<open>'/'.join(comps)\<close>.\<close>

fun join_sep :: "pystr list \<Rightarrow> pystr" where
  "join_sep [] = []"
| "join_sep [x] = x"
| "join_sep (x # y # ys) = x @ sep @ join_sep (y # ys)"

text \<open>\<open>str(n)\<close> of a non-negative integer: its decimal digits.\<close>

fun str_nat :: "nat \<Rightarrow> pystr" where
  "str_nat n = (if n < 10 then [48 + n] else str_nat (n div 10) @ [48 + n mod 10])"

text \<open>\<open>f"{x}"\<close> of an optional string: \<open>None\<close> prints as \<open>None\<close>.\<close>

fun format_opt :: "pystr option \<Rightarrow> pystr" where
  "format_opt None = u ''None''"
| "format_opt (Some s) = s"

text \<open>Python's truth value of an optional string: \<open>None\<close> and \<open>""\<close> are false.\<close>

fun truthy :: "pystr option \<Rightarrow> bool" where
  "truthy None = False"
| "truthy (Some s) = (s \<noteq> [])"

subsection \<open>Exceptions\<close>

text \<open>
  The handlers tell \<open>FileNotFoundError\<close> and \<open>PermissionError\<close> from every other
  exception; \<open>str(e)\<close> is the text an exception carries. All four classes are
  subclasses of \<open>Exception\<close>.
\<close>

datatype exn_class = FileNotFoundError | PermissionError | AttributeError | OtherException

datatype exn = Exn exn_class pystr

fun exn_class_of :: "exn \<Rightarrow> exn_class" where
  "exn_class_of (Exn c m) = c"

fun str_exn :: "exn \<Rightarrow> pystr" where
  "str_exn (Exn c m) = m"

subsection \<open>JSON values where a dict is expected\<close>

text \<open>
  \<open>json.loads\<close> gives a dict for a JSON object and another Python value for anything
  else (\<open>None\<close> for \<open>null\<close>, an \<open>int\<close>, a \<open>str\<close>, a \<open>list\<close>, ...). \<open>NotDict\<close>
  carries the name of that value's type. Calling \<open>.get\<close> on such a value raises
  \<open>AttributeError\<close>, whose text is \<open>'NoneType' object has no attribute 'get'\<close> for
  \<open>None\<close>.
\<close>

datatype 'a json_value = Dict 'a | NotDict pystr

definition attribute_error :: "pystr \<Rightarrow> exn" where
  "attribute_error type_name =
     Exn AttributeError
       (apostrophe @ type_name @ apostrophe @ u '' object has no attribute ''
          @ apostrophe @ u ''get'' @ apostrophe)"

text \<open>\<open>d.get(k)\<close>, where \<open>d\<close> should be a dict with string values.\<close>

definition dict_get :: "('k \<rightharpoonup> 'v) json_value \<Rightarrow> 'k \<Rightarrow> exn + 'v option" where
  "dict_get d k =
     (case d of
        Dict m \<Rightarrow> Inr (m k)
      | NotDict type_name \<Rightarrow> Inl (attribute_error type_name))"

subsection \<open>The operating system\<close>

text \<open>
  What the program asks of the operating system, as functions of the world state. Reading
  leaves the world as it is; \<open>makedirs\<close> and \<open>open_write\<close> return the changed world.
  \<open>open_read w p\<close> stands for \<open>open(p, 'r', encoding='utf-8')\<close> followed by
  \<open>f.read()\<close>.
\<close>

record 'w os =
  getcwd :: "'w \<Rightarrow> exn + pystr"
  expanduser :: "'w \<Rightarrow> pystr \<Rightarrow> pystr"
  open_read :: "'w \<Rightarrow> pystr \<Rightarrow> exn + pystr"
  listdir :: "'w \<Rightarrow> pystr \<Rightarrow> exn + pystr list"
  isdir :: "'w \<Rightarrow> pystr \<Rightarrow> bool"
  getsize :: "'w \<Rightarrow> pystr \<Rightarrow> exn + nat"
  makedirs :: "'w \<Rightarrow> pystr \<Rightarrow> (exn + unit) \<times> 'w"
  open_write :: "'w \<Rightarrow> pystr \<Rightarrow> pystr \<Rightarrow> (exn + unit) \<times> 'w"

subsection \<open>os.path on POSIX\<close>

text \<open>
  \<open>os.path.join(a, b)\<close>, \<open>os.path.normpath\<close>, \<open>os.path.abspath\<close> and
  \<open>os.path.dirname\<close> as \<open>posixpath\<close> computes them: purely on the text of the path,
  no symbolic link is followed.
\<close>

definition join :: "pystr \<Rightarrow> pystr \<Rightarrow> pystr" where
  "join a b =
     (if startswith b sep \<or> a = [] then b
      else if endswith a sep then a @ b
      else a @ sep @ b)"

definition dot :: pystr where
  "dot = [46]"

definition dotdot :: pystr where
  "dotdot = [46, 46]"

definition initial_slashes_of :: "pystr \<Rightarrow> nat" where
  "initial_slashes_of path =
     (if startswith path sep then
        (if startswith path (sep @ sep) \<and> \<not> startswith path (sep @ sep @ sep) then 2 else 1)
      else 0)"

definition normpath_step :: "nat \<Rightarrow> pystr list \<Rightarrow> pystr \<Rightarrow> pystr list" where
  "normpath_step initial_slashes new_comps part =
     (if part = [] \<or> part = dot then new_comps
      else if part \<noteq> dotdot \<or> (initial_slashes = 0 \<and> new_comps = [])
                \<or> (new_comps \<noteq> [] \<and> last new_comps = dotdot)
           then new_comps @ [part]
      else if new_comps \<noteq> [] then butlast new_comps
      else new_comps)"

definition normpath :: "pystr \<Rightarrow> pystr" where
  "normpath path =
     (if path = [] then dot
      else
        let initial_slashes = initial_slashes_of path;
            comps = foldl (normpath_step initial_slashes) [] (split_sep path);
            joined = join_sep comps;
            path' = (if initial_slashes \<noteq> 0
                     then concat (replicate initial_slashes sep) @ joined else joined)
        in if path' = [] then dot else path')"

definition abspath :: "'w os \<Rightarrow> 'w \<Rightarrow> pystr \<Rightarrow> exn + pystr" where
  "abspath os w path =
     (if \<not> startswith path sep then
        (case getcwd os w of
           Inl e \<Rightarrow> Inl e
         | Inr cwd \<Rightarrow> Inr (normpath (join cwd path)))
      else Inr (normpath path))"

text \<open>\<open>s.rstrip('/')\<close> and \<open>os.path.dirname\<close>.\<close>

definition rstrip_sep :: "pystr \<Rightarrow> pystr" where
  "rstrip_sep s = rev (dropWhile (\<lambda>c. c = 47) (rev s))"

definition dirname :: "pystr \<Rightarrow> pystr" where
  "dirname p =
     (let head = rev (dropWhile (\<lambda>c. c \<noteq> 47) (rev p))
      in if head \<noteq> [] \<and> head \<noteq> concat (replicate (length head) sep)
         then rstrip_sep head else head)"

subsection \<open>Tool descriptors, the server object and responses\<close>

record tool_property =
  prop_type :: pystr
  prop_description :: pystr

record input_schema =
  schema_type :: pystr
  properties :: "(pystr \<times> tool_property) list"
  required :: "pystr list"

record tool =
  name :: pystr
  description :: pystr
  inputSchema :: input_schema

text \<open>
  The attributes \<open>__init__\<close> sets. No method assigns to either afterwards, so the
  methods take \<open>self\<close> and do not return it.
\<close>

record server =
  tools :: "tool list"
  safe_paths :: "pystr list"

text \<open>
  A response is a Python dict with some of the keys \<open>tools\<close>, \<open>content\<close>,
  \<open>metadata\<close> and \<open>error\<close>; an absent key is \<open>None\<close>.
\<close>

record content_block =
  block_type :: pystr
  block_text :: pystr

record metadata_obj =
  requires_confirmation :: bool
  operation :: pystr
  risk_level :: pystr

record rpc_error =
  code :: int
  message :: pystr

record response =
  tools_key :: "tool list option"
  content :: "content_block list option"
  metadata :: "metadata_obj option"
  error :: "rpc_error option"

text \<open>\<open>{"error": {"code": c, "message": m}}\<close>\<close>

definition error_response :: "int \<Rightarrow> pystr \<Rightarrow> response" where
  "error_response c m =
     \<lparr>tools_key = None, content = None, metadata = None,
      error = Some \<lparr>code = c, message = m\<rparr>\<rparr>"

text \<open>\<open>{"content": [{"type": "text", "text": t}]}\<close>\<close>

definition text_response :: "pystr \<Rightarrow> response" where
  "text_response t =
     \<lparr>tools_key = None,
      content = Some [\<lparr>block_type = u ''text'', block_text = t\<rparr>],
      metadata = None, error = None\<rparr>"

text \<open>
  A response populates exactly one arm: it has \<open>content\<close> or \<open>error\<close> and not both, and
  \<open>metadata\<close> only beside \<open>content\<close>.
\<close>

definition one_arm :: "response \<Rightarrow> bool" where
  "one_arm r =
     ((content r \<noteq> None) \<noteq> (error r \<noteq> None) \<and> (error r \<noteq> None \<longrightarrow> metadata r = None))"

text \<open>\<open>__init__\<close>: the catalogue of three tools and the six safe paths.\<close>

definition init :: "'w os \<Rightarrow> 'w \<Rightarrow> server" where
  "init os w =
     \<lparr>tools =
        [\<lparr>name = u ''read_file'',
          description = u ''Read contents of a file with path validation'',
          inputSchema =
            \<lparr>schema_type = u ''object'',
             properties =
               [(u ''path'',
                 \<lparr>prop_type = u ''string'',
                  prop_description = u ''Path to the file to read''\<rparr>)],
             required = [u ''path'']\<rparr>\<rparr>,
         \<lparr>name = u ''list_directory'',
          description = u ''List contents of a directory'',
          inputSchema =
            \<lparr>schema_type = u ''object'',
             properties =
               [(u ''path'',
                 \<lparr>prop_type = u ''string'',
                  prop_description = u ''Path to the directory to list''\<rparr>)],
             required = [u ''path'']\<rparr>\<rparr>,
         \<lparr>name = u ''write_file'',
          description = u ''Write content to a file (requires confirmation)'',
          inputSchema =
            \<lparr>schema_type = u ''object'',
             properties =
               [(u ''path'',
                 \<lparr>prop_type = u ''string'',
                  prop_description = u ''Path where to write the file''\<rparr>),
                (u ''content'',
                 \<lparr>prop_type = u ''string'',
                  prop_description = u ''Content to write to the file''\<rparr>)],
             required = [u ''path'', u ''content'']\<rparr>\<rparr>],
      safe_paths =
        [u ''demos/'', u ''test/'', u ''docs/'', u ''/tmp/'',
         expanduser os w (u ''~/Downloads/''),
         expanduser os w (u ''~/Documents/'')]\<rparr>"

subsection \<open>The path guard\<close>

text \<open>
  The \<open>for\<close> loop of \<open>is_safe_path\<close>: each root is resolved when its turn comes, and
  the test is \<open>resolved_path.startswith(safe_resolved)\<close> on the two strings.
\<close>

fun safe_loop :: "'w os \<Rightarrow> 'w \<Rightarrow> pystr \<Rightarrow> pystr list \<Rightarrow> exn + bool" where
  "safe_loop os w resolved_path [] = Inr False"
| "safe_loop os w resolved_path (safe_path # rest) =
     (case abspath os w safe_path of
        Inl e \<Rightarrow> Inl e
      | Inr safe_resolved \<Rightarrow>
          if startswith resolved_path safe_resolved then Inr True
          else safe_loop os w resolved_path rest)"

text \<open>The body of the \<open>try\<close>, where an exception is still an exception.\<close>

definition is_safe_path_try :: "'w os \<Rightarrow> server \<Rightarrow> 'w \<Rightarrow> pystr \<Rightarrow> exn + bool" where
  "is_safe_path_try os self w path =
     (case abspath os w path of
        Inl e \<Rightarrow> Inl e
      | Inr resolved_path \<Rightarrow> safe_loop os w resolved_path (safe_paths self))"

text \<open>\<open>is_safe_path\<close>: the bare \<open>except\<close> turns every exception into \<open>False\<close>.\<close>

definition is_safe_path :: "'w os \<Rightarrow> server \<Rightarrow> 'w \<Rightarrow> pystr \<Rightarrow> exn + bool" where
  "is_safe_path os self w path =
     (case is_safe_path_try os self w path of
        Inl e \<Rightarrow> Inr False
      | Inr b \<Rightarrow> Inr b)"

subsection \<open>The three tool handlers\<close>

text \<open>
  Each handler returns what it returns or raises, and the world after it.
\<close>

fun read_file :: "'w os \<Rightarrow> server \<Rightarrow> 'w \<Rightarrow> pystr option \<Rightarrow> (exn + response) \<times> 'w" where
  "read_file os self w None =
     (Inr (error_response (- 32602) (u ''Path is required'')), w)"
| "read_file os self w (Some path) =
     (if path = [] then (Inr (error_response (- 32602) (u ''Path is required'')), w)
      else
        (case is_safe_path os self w path of
           Inl e \<Rightarrow> (Inl e, w)
         | Inr safe \<Rightarrow>
             if \<not> safe then
               (Inr (error_response (- 32603)
                  (u ''Access denied: Path '' @ apostrophe @ path @ apostrophe
                     @ u '' is outside safe directories'')), w)
             else
               (case open_read os w path of
                  Inr file_content \<Rightarrow>
                    (Inr (text_response
                       (u ''Contents of '' @ path @ u '':'' @ nl @ nl @ file_content)), w)
                | Inl e \<Rightarrow>
                    if exn_class_of e = FileNotFoundError then
                      (Inr (error_response (- 32603) (u ''File not found: '' @ path)), w)
                    else if exn_class_of e = PermissionError then
                      (Inr (error_response (- 32603) (u ''Permission denied: '' @ path)), w)
                    else (Inl e, w))))"

text \<open>One entry of the listing: \<open>{"name": .., "type": .., "size": ..}\<close>.\<close>

record entry =
  entry_name :: pystr
  entry_type :: pystr
  entry_size :: nat

text \<open>
  The first loop of \<open>list_directory\<close>; \<open>os.path.isdir\<close> does not raise,
  \<open>os.path.getsize\<close> may, and then the loop ends with that exception.
\<close>

fun list_entries :: "'w os \<Rightarrow> 'w \<Rightarrow> pystr \<Rightarrow> pystr list \<Rightarrow> exn + entry list" where
  "list_entries os w path [] = Inr []"
| "list_entries os w path (e # es) =
     (let entry_path = join path e;
          is_dir = isdir os w entry_path
      in case (if \<not> is_dir then getsize os w entry_path else Inr 0) of
           Inl ex \<Rightarrow> Inl ex
         | Inr sz \<Rightarrow>
             (case list_entries os w path es of
                Inl ex \<Rightarrow> Inl ex
              | Inr entries \<Rightarrow>
                  Inr (\<lparr>entry_name = e,
                        entry_type = (if is_dir then u ''directory'' else u ''file''),
                        entry_size = sz\<rparr> # entries)))"

text \<open>The sort key \<open>lambda x: (x["type"] == "file", x["name"])\<close>.\<close>

definition entry_key :: "entry \<Rightarrow> bool \<times> pystr" where
  "entry_key x = (entry_type x = u ''file'', entry_name x)"

text \<open>The two kinds of entry the first loop produces.\<close>

definition is_directory :: "entry \<Rightarrow> bool" where
  "is_directory x = (entry_type x = u ''directory'')"

definition is_file :: "entry \<Rightarrow> bool" where
  "is_file x = (entry_type x = u ''file'')"

definition folder_icon :: pystr where
  "folder_icon = [128193]"

definition page_icon :: pystr where
  "page_icon = [128196]"

text \<open>The body of the second loop: one line is appended to \<open>result_text\<close>.\<close>

definition render_entry :: "pystr \<Rightarrow> entry \<Rightarrow> pystr" where
  "render_entry result_text x =
     (let icon = (if entry_type x = u ''directory'' then folder_icon else page_icon);
          size_str = (if entry_type x = u ''file''
                      then u '' ('' @ str_nat (entry_size x) @ u '' bytes)'' else [])
      in result_text @ icon @ u '' '' @ entry_name x @ size_str @ nl)"

text \<open>The body of the \<open>try\<close> of \<open>list_directory\<close>.\<close>

definition list_directory_try :: "'w os \<Rightarrow> 'w \<Rightarrow> pystr \<Rightarrow> exn + response" where
  "list_directory_try os w path =
     (case listdir os w path of
        Inl e \<Rightarrow> Inl e
      | Inr names \<Rightarrow>
          (case list_entries os w path names of
             Inl e \<Rightarrow> Inl e
           | Inr entries \<Rightarrow>
               Inr (text_response
                 (foldl render_entry
                    (u ''Contents of directory '' @ path @ u '':'' @ nl @ nl)
                    (sort_key entry_key entries)))))"

fun list_directory :: "'w os \<Rightarrow> server \<Rightarrow> 'w \<Rightarrow> pystr option \<Rightarrow> (exn + response) \<times> 'w" where
  "list_directory os self w None =
     (Inr (error_response (- 32602) (u ''Path is required'')), w)"
| "list_directory os self w (Some path) =
     (if path = [] then (Inr (error_response (- 32602) (u ''Path is required'')), w)
      else
        (case is_safe_path os self w path of
           Inl e \<Rightarrow> (Inl e, w)
         | Inr safe \<Rightarrow>
             if \<not> safe then
               (Inr (error_response (- 32603)
                  (u ''Access denied: Path '' @ apostrophe @ path @ apostrophe
                     @ u '' is outside safe directories'')), w)
             else
               (case list_directory_try os w path of
                  Inr r \<Rightarrow> (Inr r, w)
                | Inl e \<Rightarrow>
                    if exn_class_of e = FileNotFoundError then
                      (Inr (error_response (- 32603) (u ''Directory not found: '' @ path)), w)
                    else if exn_class_of e = PermissionError then
                      (Inr (error_response (- 32603) (u ''Permission denied: '' @ path)), w)
                    else (Inl e, w))))"

definition warning_sign :: pystr where
  "warning_sign = [9888, 65039]"

definition check_mark :: pystr where
  "check_mark = [9989]"

text \<open>
  The statements of \<open>write_file\<close> after \<open>if confirmation_required\<close>: create the parent
  directories, write the file, and answer \<open>PermissionError\<close> with an error response.
\<close>

definition write_file_confirmed :: "'w os \<Rightarrow> 'w \<Rightarrow> pystr \<Rightarrow> pystr \<Rightarrow> (exn + response) \<times> 'w" where
  "write_file_confirmed os w path content' =
     (case (case makedirs os w (dirname path) of
              (Inl e, w1) \<Rightarrow> (Inl e, w1)
            | (Inr _, w1) \<Rightarrow> open_write os w1 path content') of
        (Inr _, w2) \<Rightarrow>
          (Inr (text_response
             (check_mark @ u '' Successfully wrote '' @ str_nat (length content')
                @ u '' characters to '' @ path)), w2)
      | (Inl e, w2) \<Rightarrow>
          if exn_class_of e = PermissionError then
            (Inr (error_response (- 32603) (u ''Permission denied: '' @ path)), w2)
          else (Inl e, w2))"

fun write_file ::
  "'w os \<Rightarrow> server \<Rightarrow> 'w \<Rightarrow> pystr option \<Rightarrow> pystr option \<Rightarrow> (exn + response) \<times> 'w" where
  "write_file os self w (Some path) (Some content') =
     (if path = [] then
        (Inr (error_response (- 32602) (u ''Path and content are required'')), w)
      else
        (case is_safe_path os self w path of
           Inl e \<Rightarrow> (Inl e, w)
         | Inr safe \<Rightarrow>
             if \<not> safe then
               (Inr (error_response (- 32603)
                  (u ''Access denied: Path '' @ apostrophe @ path @ apostrophe
                     @ u '' is outside safe directories'')), w)
             else
               (let confirmation_required = True
                in if confirmation_required then
                     (Inr \<lparr>tools_key = None,
                           content = Some
                             [\<lparr>block_type = u ''text'',
                               block_text =
                                 warning_sign @ u '' File write operation requires confirmation:'' @ nl
                                 @ u ''Path: '' @ path @ nl
                                 @ u ''Content length: '' @ str_nat (length content')
                                 @ u '' characters'' @ nl
                                 @ u ''This operation would create/overwrite a file.'' @ nl
                                 @ u ''Please confirm this action through the UI.''\<rparr>],
                           metadata = Some
                             \<lparr>requires_confirmation = True,
                              operation = u ''file_write'',
                              risk_level = u ''medium''\<rparr>,
                           error = None\<rparr>, w)
                   else write_file_confirmed os w path content')))"
| "write_file os self w _ _ =
     (Inr (error_response (- 32602) (u ''Path and content are required'')), w)"

subsection \<open>The dispatcher\<close>

text \<open>
  The body of the \<open>try\<close> of \<open>call_tool\<close>: the choice of the handler by name. The
  arguments are read with \<open>arguments.get\<close> inside the \<open>try\<close>, before the handler is
  called, so a value that is not a dict raises there.
\<close>

definition call_tool_try ::
  "'w os \<Rightarrow> server \<Rightarrow> 'w \<Rightarrow> pystr option \<Rightarrow> (pystr \<rightharpoonup> pystr) json_value
     \<Rightarrow> (exn + response) \<times> 'w" where
  "call_tool_try os self w tool_name arguments =
     (if tool_name = Some (u ''read_file'') then
        (case dict_get arguments (u ''path'') of
           Inl e \<Rightarrow> (Inl e, w)
         | Inr path \<Rightarrow> read_file os self w path)
      else if tool_name = Some (u ''list_directory'') then
        (case dict_get arguments (u ''path'') of
           Inl e \<Rightarrow> (Inl e, w)
         | Inr path \<Rightarrow> list_directory os self w path)
      else if tool_name = Some (u ''write_file'') then
        (case dict_get arguments (u ''path'') of
           Inl e \<Rightarrow> (Inl e, w)
         | Inr path \<Rightarrow>
             (case dict_get arguments (u ''content'') of
                Inl e \<Rightarrow> (Inl e, w)
              | Inr content' \<Rightarrow> write_file os self w path content'))
      else
        (Inr (error_response (- 32602)
           (u ''Unknown tool: '' @ format_opt tool_name)), w))"

text \<open>\<open>call_tool\<close>: \<open>except Exception as e\<close> turns what the body raises into a response.\<close>

definition call_tool ::
  "'w os \<Rightarrow> server \<Rightarrow> 'w \<Rightarrow> pystr option \<Rightarrow> (pystr \<rightharpoonup> pystr) json_value
     \<Rightarrow> (exn + response) \<times> 'w" where
  "call_tool os self w tool_name arguments =
     (case call_tool_try os self w tool_name arguments of
        (Inr r, w') \<Rightarrow> (Inr r, w')
      | (Inl e, w') \<Rightarrow>
          (Inr (error_response (- 32603)
             (u ''Tool execution failed: '' @ str_exn e)), w'))"

text \<open>
  A request that is a dict: \<open>method\<close> and \<open>params\<close>. \<open>request.get("method")\<close> is
  \<open>None\<close> when the key is absent or \<open>null\<close>. \<open>request.get("params", {})\<close> takes the
  default only when the key is absent (\<open>None\<close> here); a key that is present gives its
  value, which may be something other than a dict. The same holds of \<open>name\<close> and
  \<open>arguments\<close> inside \<open>params\<close>.
\<close>

record params_obj =
  params_name :: "pystr option"
  params_arguments :: "(pystr \<rightharpoonup> pystr) json_value option"

record request =
  req_method :: "pystr option"
  req_params :: "params_obj json_value option"

text \<open>
  \<open>handle_request\<close>, on whatever \<open>json.loads\<close> returned. \<open>request.get\<close> raises when the
  request is not a dict, and \<open>params.get\<close>, which only the \<open>tools/call\<close> branch
  evaluates, raises when \<open>params\<close> is not a dict; neither is inside a \<open>try\<close>.
\<close>

definition handle_request ::
  "'w os \<Rightarrow> server \<Rightarrow> 'w \<Rightarrow> request json_value \<Rightarrow> (exn + response) \<times> 'w" where
  "handle_request os self w request =
     (case request of
        NotDict type_name \<Rightarrow> (Inl (attribute_error type_name), w)
      | Dict req \<Rightarrow>
          (let method = req_method req;
               params = (case req_params req of
                           None \<Rightarrow> Dict \<lparr>params_name = None, params_arguments = None\<rparr>
                         | Some p \<Rightarrow> p)
           in if method = Some (u ''tools/list'') then
                (Inr \<lparr>tools_key = Some (tools self), content = None,
                      metadata = None, error = None\<rparr>, w)
              else if method = Some (u ''tools/call'') then
                (case params of
                   NotDict type_name \<Rightarrow> (Inl (attribute_error type_name), w)
                 | Dict ps \<Rightarrow>
                     (let tool_name = params_name ps;
                          arguments = (case params_arguments ps of
                                         None \<Rightarrow> Dict Map.empty
                                       | Some a \<Rightarrow> a)
                      in call_tool os self w tool_name arguments))
              else
                (Inr (error_response (- 32601)
                   (u ''Method not found: '' @ format_opt method)), w)))"

text \<open>
  The loop of \<open>main\<close> over the lines read before end of input. A line is either not JSON
  or the value \<open>json.loads\<close> returns for it; the result is the responses printed, in
  order, and the world at the end. What \<open>handle_request\<close> raises is answered with the
  error -32603.
\<close>

datatype stdin_line = NotJson | Json "request json_value"

fun main_loop :: "'w os \<Rightarrow> server \<Rightarrow> 'w \<Rightarrow> stdin_line list \<Rightarrow> response list \<times> 'w" where
  "main_loop os srv w [] = ([], w)"
| "main_loop os srv w (NotJson # rest) =
     (let (printed, w') = main_loop os srv w rest
      in (error_response (- 32700) (u ''Parse error: Invalid JSON'') # printed, w'))"
| "main_loop os srv w (Json request # rest) =
     (case handle_request os srv w request of
        (Inr r, w1) \<Rightarrow>
          (let (printed, w') = main_loop os srv w1 rest in (r # printed, w'))
      | (Inl e, w1) \<Rightarrow>
          (let (printed, w') = main_loop os srv w1 rest
           in (error_response (- 32603) (u ''Internal error: '' @ str_exn e) # printed, w')))"

definition main :: "'w os \<Rightarrow> 'w \<Rightarrow> stdin_line list \<Rightarrow> response list \<times> 'w" where
  "main os w input = main_loop os (init os w) w input"

subsection \<open>An example world\<close>

text \<open>
  A small operating system to run the model on: the world is a list of files (path and
  text), the working directory, the names a directory listing returns and the paths that
  are directories are given; \<open>open_write\<close> adds a file.
\<close>

definition example_os ::
  "exn + pystr \<Rightarrow> pystr list \<Rightarrow> pystr list \<Rightarrow> ((pystr \<times> pystr) list) os" where
  "example_os cwd names dirs =
     \<lparr>getcwd = (\<lambda>w. cwd),
      expanduser = (\<lambda>w p. u ''/home/demo'' @ drop 1 p),
      open_read = (\<lambda>w p. case map_of w p of
                            Some c \<Rightarrow> Inr c
                          | None \<Rightarrow> Inl (Exn FileNotFoundError (u ''No such file or directory''))),
      listdir = (\<lambda>w p. Inr names),
      isdir = (\<lambda>w p. List.member dirs p),
      getsize = (\<lambda>w p. case map_of w p of
                          Some c \<Rightarrow> Inr (length c)
                        | None \<Rightarrow> Inl (Exn FileNotFoundError (u ''No such file or directory''))),
      makedirs = (\<lambda>w p. (Inr (), w)),
      open_write = (\<lambda>w p c. (Inr (), (p, c) # w))\<rparr>"

subsection \<open>The containment test the specification asks for\<close>

text \<open>
  The specification compares paths segment by segment: a path is under a root when the
  root's segments are an initial part of the path's. This definition follows the
  specification's words, to be set against \<open>is_safe_path\<close>; both resolve a path with
  \<open>abspath\<close>.
\<close>

definition path_segments :: "pystr \<Rightarrow> pystr list" where
  "path_segments p = filter (\<lambda>s. s \<noteq> []) (split_sep p)"

definition spec_is_safe :: "'w os \<Rightarrow> server \<Rightarrow> 'w \<Rightarrow> pystr \<Rightarrow> bool" where
  "spec_is_safe os self w path =
     (case abspath os w path of
        Inl e \<Rightarrow> False
      | Inr resolved_path \<Rightarrow>
          list_ex
            (\<lambda>root. case abspath os w root of
                       Inl e \<Rightarrow> False
                     | Inr resolved_root \<Rightarrow>
                         prefix (path_segments resolved_root) (path_segments resolved_path))
            (safe_paths self))"

section \<open>Properties\<close>

subsection \<open>No handler changes the world\<close>

lemma read_file_world: "snd (read_file os self w path) = w"
  by (cases path) (simp_all split: sum.splits)

lemma list_directory_world: "snd (list_directory os self w path) = w"
  by (cases path) (simp_all split: sum.splits)

lemma write_file_world: "snd (write_file os self w path content') = w"
  by (cases path; cases content') (simp_all split: sum.splits)

lemma call_tool_try_world: "snd (call_tool_try os self w tool_name arguments) = w"
  by (cases arguments)
    (simp_all add: call_tool_try_def dict_get_def read_file_world list_directory_world
      write_file_world)

lemma call_tool_world: "snd (call_tool os self w tool_name arguments) = w"
  using call_tool_try_world [of os self w tool_name arguments]
  by (auto simp: call_tool_def split: prod.splits sum.splits)

subsection \<open>The path guard\<close>

text \<open>
  C1. The specification wants \<open>is_safe_path\<close> true exactly when the resolved path is a
  root or lies below one, segment by segment, so that \<open>/tmp/xyz\<close> is unsafe when the only
  root is \<open>/tmp/x\<close>. The code tests \<open>startswith\<close> on the resolved strings: with the
  single root \<open>/tmp/x\<close> it answers \<open>True\<close> for \<open>/tmp/xyz\<close>, whatever the operating
  system answers, although the path is not below the root; and with the roots that
  \<open>__init__\<close> sets it lets \<open>/tmpevil/x\<close> through.
\<close>

theorem is_safe_path_prefix_confusion:
  "is_safe_path os \<lparr>tools = ts, safe_paths = [u ''/tmp/x'']\<rparr> w (u ''/tmp/xyz'') = Inr True
   \<and> is_safe_path (example_os (Inr (u ''/srv/app'')) [] [])
         \<lparr>tools = [], safe_paths = [u ''/tmp/x'']\<rparr> [] (u ''/tmp/xyz'') = Inr True
   \<and> \<not> spec_is_safe (example_os (Inr (u ''/srv/app'')) [] [])
         \<lparr>tools = [], safe_paths = [u ''/tmp/x'']\<rparr> [] (u ''/tmp/xyz'')
   \<and> is_safe_path (example_os (Inr (u ''/srv/app'')) [] [])
         (init (example_os (Inr (u ''/srv/app'')) [] []) []) [] (u ''/tmpevil/x'') = Inr True
   \<and> \<not> spec_is_safe (example_os (Inr (u ''/srv/app'')) [] [])
         (init (example_os (Inr (u ''/srv/app'')) [] []) []) [] (u ''/tmpevil/x'')"
proof -
  have "is_safe_path os \<lparr>tools = ts, safe_paths = [u ''/tmp/x'']\<rparr> w (u ''/tmp/xyz'') = Inr True"
    by (simp add: is_safe_path_def is_safe_path_try_def abspath_def startswith_def sep_def
        u_def normpath_def initial_slashes_of_def normpath_step_def dot_def dotdot_def)
  moreover have "is_safe_path (example_os (Inr (u ''/srv/app'')) [] [])
         \<lparr>tools = [], safe_paths = [u ''/tmp/x'']\<rparr> [] (u ''/tmp/xyz'') = Inr True"
    by code_simp
  moreover have "\<not> spec_is_safe (example_os (Inr (u ''/srv/app'')) [] [])
         \<lparr>tools = [], safe_paths = [u ''/tmp/x'']\<rparr> [] (u ''/tmp/xyz'')"
    by code_simp
  moreover have "is_safe_path (example_os (Inr (u ''/srv/app'')) [] [])
         (init (example_os (Inr (u ''/srv/app'')) [] []) []) [] (u ''/tmpevil/x'') = Inr True"
    by code_simp
  moreover have "\<not> spec_is_safe (example_os (Inr (u ''/srv/app'')) [] [])
         (init (example_os (Inr (u ''/srv/app'')) [] []) []) [] (u ''/tmpevil/x'')"
    by code_simp
  ultimately show ?thesis by blast
qed

text \<open>
  C8. \<open>is_safe_path\<close> never raises: it always returns a truth value. When resolving the
  candidate path raises, and more generally when anything in the body of its \<open>try\<close>
  raises, the value is \<open>False\<close>.
\<close>

theorem is_safe_path_total:
  "(\<exists>b. is_safe_path os self w path = Inr b)
   \<and> (abspath os w path = Inl e \<longrightarrow> is_safe_path os self w path = Inr False)
   \<and> (is_safe_path_try os self w path = Inl e \<longrightarrow> is_safe_path os self w path = Inr False)"
  by (auto simp: is_safe_path_def is_safe_path_try_def split: sum.splits)

theorem is_safe_path_total_witness:
  "abspath (example_os (Inl (Exn FileNotFoundError (u ''No such file or directory''))) [] []) []
       (u ''demos/x'') = Inl (Exn FileNotFoundError (u ''No such file or directory''))
   \<and> is_safe_path (example_os (Inl (Exn FileNotFoundError (u ''No such file or directory''))) [] [])
         \<lparr>tools = [], safe_paths = [u ''demos/'']\<rparr> [] (u ''demos/x'') = Inr False"
proof -
  let ?e = "Exn FileNotFoundError (u ''No such file or directory'')"
  let ?os = "example_os (Inl ?e) [] []"
  have raised: "abspath ?os [] (u ''demos/x'') = Inl ?e"
    by code_simp
  from is_safe_path_total [of ?os "\<lparr>tools = [], safe_paths = [u ''demos/'']\<rparr>" "[]" "u ''demos/x''" ?e]
    raised
  show ?thesis by blast
qed

text \<open>
  C9. The verdict of the guard depends on the working directory. The first three roots
  that \<open>__init__\<close> sets are relative, and \<open>is_safe_path\<close> resolves the path and each
  root against the working directory at every call. So with the server object and the
  path string the same, and two operating systems that differ in \<open>getcwd\<close> only, the
  verdicts differ: the relative path \<open>notes.txt\<close> is safe when the working directory is
  \<open>/tmp\<close> and unsafe when it is \<open>/srv/app\<close>, and the absolute path
  \<open>/srv/app/demos/x\<close> is safe (by the relative root \<open>demos/\<close>) when the working
  directory is \<open>/srv/app\<close> and unsafe when it is \<open>/tmp\<close>.
\<close>

theorem is_safe_path_depends_on_cwd:
  "take 4 (safe_paths (init os w)) = [u ''demos/'', u ''test/'', u ''docs/'', u ''/tmp/'']
   \<and> \<not> startswith (u ''demos/'') sep \<and> \<not> startswith (u ''test/'') sep
   \<and> \<not> startswith (u ''docs/'') sep
   \<and> is_safe_path (example_os (Inr (u ''/tmp'')) [] [])
         (init (example_os (Inr (u ''/tmp'')) [] []) []) [] (u ''notes.txt'') = Inr True
   \<and> is_safe_path ((example_os (Inr (u ''/tmp'')) [] [])\<lparr>getcwd := \<lambda>w. Inr (u ''/srv/app'')\<rparr>)
         (init (example_os (Inr (u ''/tmp'')) [] []) []) [] (u ''notes.txt'') = Inr False
   \<and> is_safe_path ((example_os (Inr (u ''/tmp'')) [] [])\<lparr>getcwd := \<lambda>w. Inr (u ''/srv/app'')\<rparr>)
         (init (example_os (Inr (u ''/tmp'')) [] []) []) [] (u ''/srv/app/demos/x'') = Inr True
   \<and> is_safe_path (example_os (Inr (u ''/tmp'')) [] [])
         (init (example_os (Inr (u ''/tmp'')) [] []) []) [] (u ''/srv/app/demos/x'') = Inr False"
proof -
  have roots: "take 4 (safe_paths (init os w)) = [u ''demos/'', u ''test/'', u ''docs/'', u ''/tmp/'']"
    by (simp add: init_def)
  have relative: "\<not> startswith (u ''demos/'') sep" "\<not> startswith (u ''test/'') sep"
    "\<not> startswith (u ''docs/'') sep"
    by code_simp+
  have verdicts:
    "is_safe_path (example_os (Inr (u ''/tmp'')) [] [])
         (init (example_os (Inr (u ''/tmp'')) [] []) []) [] (u ''notes.txt'') = Inr True"
    "is_safe_path ((example_os (Inr (u ''/tmp'')) [] [])\<lparr>getcwd := \<lambda>w. Inr (u ''/srv/app'')\<rparr>)
         (init (example_os (Inr (u ''/tmp'')) [] []) []) [] (u ''notes.txt'') = Inr False"
    "is_safe_path ((example_os (Inr (u ''/tmp'')) [] [])\<lparr>getcwd := \<lambda>w. Inr (u ''/srv/app'')\<rparr>)
         (init (example_os (Inr (u ''/tmp'')) [] []) []) [] (u ''/srv/app/demos/x'') = Inr True"
    "is_safe_path (example_os (Inr (u ''/tmp'')) [] [])
         (init (example_os (Inr (u ''/tmp'')) [] []) []) [] (u ''/srv/app/demos/x'') = Inr False"
    by code_simp+
  from roots relative verdicts show ?thesis by blast
qed

subsection \<open>The handlers\<close>

text \<open>
  C10. Each of the three handlers answers an absent path (\<open>None\<close>) and the empty string
  with the same error response, code -32602, and leaves the world as it was. The answer
  is the same for every operating system and every server object, so the guard, whose
  verdict they determine, has no part in it.
\<close>

theorem empty_or_absent_path_rejected:
  "read_file os self w None = (Inr (error_response (- 32602) (u ''Path is required'')), w)
   \<and> read_file os self w (Some []) = (Inr (error_response (- 32602) (u ''Path is required'')), w)
   \<and> list_directory os self w None = (Inr (error_response (- 32602) (u ''Path is required'')), w)
   \<and> list_directory os self w (Some []) =
       (Inr (error_response (- 32602) (u ''Path is required'')), w)
   \<and> write_file os self w None c =
       (Inr (error_response (- 32602) (u ''Path and content are required'')), w)
   \<and> write_file os self w (Some []) c =
       (Inr (error_response (- 32602) (u ''Path and content are required'')), w)"
  by (cases c) simp_all

theorem empty_or_absent_path_rejected_witness:
  "read_file (example_os (Inr (u ''/srv/app'')) [] []) \<lparr>tools = [], safe_paths = [u ''/'']\<rparr> [] None
     = read_file (example_os (Inr (u ''/srv/app'')) [] []) \<lparr>tools = [], safe_paths = [u ''/'']\<rparr> []
         (Some [])
   \<and> fst (write_file (example_os (Inr (u ''/srv/app'')) [] []) \<lparr>tools = [], safe_paths = [u ''/'']\<rparr>
         [] (Some []) (Some (u ''text'')))
     = Inr (error_response (- 32602) (u ''Path and content are required''))"
  using empty_or_absent_path_rejected
    [of "example_os (Inr (u ''/srv/app'')) [] []" "\<lparr>tools = [], safe_paths = [u ''/'']\<rparr>" "[]"
        "Some (u ''text'')"]
  by simp

text \<open>
  C5. \<open>read_file\<close> answers an absent or empty path with error -32602 and the message
  \<open>Path is required\<close>; a safe path whose file is absent with error -32603 and the message
  \<open>File not found:\<close> followed by the path as given; and a safe path whose file can be read
  with one text block, \<open>Contents of <path>:\<close>, a blank line and the text of the file.
\<close>

theorem read_file_contract:
  "(\<not> truthy path \<longrightarrow>
      read_file os self w path = (Inr (error_response (- 32602) (u ''Path is required'')), w))
   \<and> (p \<noteq> [] \<and> is_safe_path os self w p = Inr True \<and> open_read os w p = Inl e
        \<and> exn_class_of e = FileNotFoundError \<longrightarrow>
      read_file os self w (Some p) =
        (Inr (error_response (- 32603) (u ''File not found: '' @ p)), w))
   \<and> (p \<noteq> [] \<and> is_safe_path os self w p = Inr True \<and> open_read os w p = Inr c \<longrightarrow>
      read_file os self w (Some p) =
        (Inr (text_response (u ''Contents of '' @ p @ u '':'' @ nl @ nl @ c)), w))"
  by (cases path) simp_all

theorem read_file_contract_witness:
  "read_file (example_os (Inr (u ''/srv/app'')) [] []) (init (example_os (Inr (u ''/srv/app'')) [] []) [])
       [(u ''/tmp/f.txt'', u ''data'')] (Some [])
     = (Inr (error_response (- 32602) (u ''Path is required'')), [(u ''/tmp/f.txt'', u ''data'')])
   \<and> read_file (example_os (Inr (u ''/srv/app'')) [] []) (init (example_os (Inr (u ''/srv/app'')) [] []) [])
       [(u ''/tmp/f.txt'', u ''data'')] (Some (u ''/tmp/g.txt''))
     = (Inr (error_response (- 32603) (u ''File not found: '' @ u ''/tmp/g.txt'')),
        [(u ''/tmp/f.txt'', u ''data'')])
   \<and> read_file (example_os (Inr (u ''/srv/app'')) [] []) (init (example_os (Inr (u ''/srv/app'')) [] []) [])
       [(u ''/tmp/f.txt'', u ''data'')] (Some (u ''/tmp/f.txt''))
     = (Inr (text_response (u ''Contents of '' @ u ''/tmp/f.txt'' @ u '':'' @ nl @ nl @ u ''data'')),
        [(u ''/tmp/f.txt'', u ''data'')])"
proof -
  let ?os = "example_os (Inr (u ''/srv/app'')) [] []"
  let ?w = "[(u ''/tmp/f.txt'', u ''data'')]"
  let ?e = "Exn FileNotFoundError (u ''No such file or directory'')"
  have falsy: "\<not> truthy (Some [])"
    by simp
  have g: "u ''/tmp/g.txt'' \<noteq> []" "is_safe_path ?os (init ?os []) ?w (u ''/tmp/g.txt'') = Inr True"
    "open_read ?os ?w (u ''/tmp/g.txt'') = Inl ?e" "exn_class_of ?e = FileNotFoundError"
    by code_simp+
  have f: "u ''/tmp/f.txt'' \<noteq> []" "is_safe_path ?os (init ?os []) ?w (u ''/tmp/f.txt'') = Inr True"
    "open_read ?os ?w (u ''/tmp/f.txt'') = Inr (u ''data'')"
    by code_simp+
  from falsy read_file_contract [of "Some []" ?os "init ?os []" ?w]
  have 1: "read_file ?os (init ?os []) ?w (Some []) =
      (Inr (error_response (- 32602) (u ''Path is required'')), ?w)"
    by blast
  from g read_file_contract [of _ ?os "init ?os []" ?w "u ''/tmp/g.txt''" ?e]
  have 2: "read_file ?os (init ?os []) ?w (Some (u ''/tmp/g.txt'')) =
      (Inr (error_response (- 32603) (u ''File not found: '' @ u ''/tmp/g.txt'')), ?w)"
    by blast
  from f read_file_contract [of _ ?os "init ?os []" ?w "u ''/tmp/f.txt''" _ "u ''data''"]
  have 3: "read_file ?os (init ?os []) ?w (Some (u ''/tmp/f.txt'')) =
      (Inr (text_response (u ''Contents of '' @ u ''/tmp/f.txt'' @ u '':'' @ nl @ nl @ u ''data'')), ?w)"
    by blast
  from 1 2 3 show ?thesis by blast
qed

text \<open>
  C2. \<open>write_file\<close> never writes: whatever its arguments, the world after it is the world
  before it, so \<open>makedirs\<close> and \<open>open_write\<close> are never applied, and the same holds when it
  is reached through \<open>call_tool\<close>. For a non-empty path that passes the guard and a
  content that is present, it returns the text block describing the pending write
  (path, length of the content in characters, the warning) and the metadata
  \<open>requires_confirmation = True\<close>, \<open>operation = file_write\<close>, \<open>risk_level = medium\<close>.
\<close>

theorem write_file_never_writes:
  "snd (write_file os self w path content') = w
   \<and> snd (call_tool os self w (Some (u ''write_file'')) arguments) = w
   \<and> (p \<noteq> [] \<and> is_safe_path os self w p = Inr True \<longrightarrow>
       write_file os self w (Some p) (Some c) =
         (Inr \<lparr>tools_key = None,
               content = Some
                 [\<lparr>block_type = u ''text'',
                   block_text =
                     warning_sign @ u '' File write operation requires confirmation:'' @ nl
                     @ u ''Path: '' @ p @ nl
                     @ u ''Content length: '' @ str_nat (length c) @ u '' characters'' @ nl
                     @ u ''This operation would create/overwrite a file.'' @ nl
                     @ u ''Please confirm this action through the UI.''\<rparr>],
               metadata = Some
                 \<lparr>requires_confirmation = True, operation = u ''file_write'',
                  risk_level = u ''medium''\<rparr>,
               error = None\<rparr>, w))"
  by (simp add: write_file_world call_tool_world)

theorem write_file_never_writes_witness:
  "is_safe_path (example_os (Inr (u ''/srv/app'')) [] [])
       (init (example_os (Inr (u ''/srv/app'')) [] []) []) [] (u ''test/x.txt'') = Inr True
   \<and> snd (call_tool (example_os (Inr (u ''/srv/app'')) [] [])
         (init (example_os (Inr (u ''/srv/app'')) [] []) []) [] (Some (u ''write_file''))
         (Dict [u ''path'' \<mapsto> u ''test/x.txt'', u ''content'' \<mapsto> []])) = []
   \<and> fst (write_file (example_os (Inr (u ''/srv/app'')) [] [])
         (init (example_os (Inr (u ''/srv/app'')) [] []) []) []
         (Some (u ''test/x.txt'')) (Some [])) =
       Inr \<lparr>tools_key = None,
            content = Some
              [\<lparr>block_type = u ''text'',
                block_text =
                  warning_sign @ u '' File write operation requires confirmation:'' @ nl
                  @ u ''Path: test/x.txt'' @ nl
                  @ u ''Content length: 0 characters'' @ nl
                  @ u ''This operation would create/overwrite a file.'' @ nl
                  @ u ''Please confirm this action through the UI.''\<rparr>],
            metadata = Some
              \<lparr>requires_confirmation = True, operation = u ''file_write'',
               risk_level = u ''medium''\<rparr>,
            error = None\<rparr>"
proof -
  let ?os = "example_os (Inr (u ''/srv/app'')) [] []"
  have safe: "is_safe_path ?os (init ?os []) [] (u ''test/x.txt'') = Inr True"
    by code_simp
  have ne: "u ''test/x.txt'' \<noteq> []"
    by code_simp
  note inst = write_file_never_writes [of ?os "init ?os []" "[]" "Some (u ''test/x.txt'')" "Some []"
        "Dict [u ''path'' \<mapsto> u ''test/x.txt'', u ''content'' \<mapsto> []]" "u ''test/x.txt''" "[]"]
  from inst have unchanged: "snd (call_tool ?os (init ?os []) [] (Some (u ''write_file''))
         (Dict [u ''path'' \<mapsto> u ''test/x.txt'', u ''content'' \<mapsto> []])) = []"
    by blast
  from inst ne safe have pending:
    "write_file ?os (init ?os []) [] (Some (u ''test/x.txt'')) (Some []) =
       (Inr \<lparr>tools_key = None,
             content = Some
               [\<lparr>block_type = u ''text'',
                 block_text =
                   warning_sign @ u '' File write operation requires confirmation:'' @ nl
                   @ u ''Path: '' @ u ''test/x.txt'' @ nl
                   @ u ''Content length: '' @ str_nat (length ([]::nat list))
                   @ u '' characters'' @ nl
                   @ u ''This operation would create/overwrite a file.'' @ nl
                   @ u ''Please confirm this action through the UI.''\<rparr>],
             metadata = Some
               \<lparr>requires_confirmation = True, operation = u ''file_write'',
                risk_level = u ''medium''\<rparr>,
             error = None\<rparr>, [])"
    by blast
  have texts: "u ''Path: '' @ u ''test/x.txt'' = u ''Path: test/x.txt''"
    "u ''Content length: '' @ str_nat (length ([]::nat list)) @ u '' characters'' @ nl
       = u ''Content length: 0 characters'' @ nl"
    by (simp_all add: u_def)
  show ?thesis
    using safe unchanged pending texts by simp
qed

subsection \<open>Responses have one arm\<close>

lemma is_safe_path_returns: "\<exists>b. is_safe_path os self w path = Inr b"
  by (cases "is_safe_path_try os self w path") (auto simp: is_safe_path_def)

lemma call_tool_returns: "\<exists>r. fst (call_tool os self w tool_name arguments) = Inr r"
  by (auto simp: call_tool_def split: prod.splits sum.splits)

lemma one_arm_error: "one_arm (error_response c m)"
  by (simp add: one_arm_def error_response_def)

lemma one_arm_text: "one_arm (text_response t)"
  by (simp add: one_arm_def text_response_def)

lemma read_file_one_arm:
  assumes "fst (read_file os self w path) = Inr r"
  shows "one_arm r"
proof (cases path)
  case None
  with assms show ?thesis by (auto simp: one_arm_error)
next
  case (Some p)
  obtain b where b: "is_safe_path os self w p = Inr b"
    using is_safe_path_returns [of os self w p] by blast
  show ?thesis
  proof (cases "open_read os w p")
    case (Inl e)
    with assms Some b show ?thesis
      by (auto simp: one_arm_error split: if_splits)
  next
    case (Inr c)
    with assms Some b show ?thesis
      by (auto simp: one_arm_error one_arm_text split: if_splits)
  qed
qed

lemma list_directory_try_one_arm: "list_directory_try os w p = Inr r \<Longrightarrow> one_arm r"
  by (auto simp: list_directory_try_def one_arm_text split: sum.splits)

lemma list_directory_one_arm:
  assumes "fst (list_directory os self w path) = Inr r"
  shows "one_arm r"
proof (cases path)
  case None
  with assms show ?thesis by (auto simp: one_arm_error)
next
  case (Some p)
  obtain b where b: "is_safe_path os self w p = Inr b"
    using is_safe_path_returns [of os self w p] by blast
  show ?thesis
  proof (cases "list_directory_try os w p")
    case (Inl e)
    with assms Some b show ?thesis
      by (auto simp: one_arm_error split: if_splits)
  next
    case (Inr c)
    with assms Some b show ?thesis
      by (auto simp: one_arm_error list_directory_try_one_arm split: if_splits)
  qed
qed

lemma one_arm_content:
  "one_arm \<lparr>tools_key = ts, content = Some bs, metadata = md, error = None\<rparr>"
  by (simp add: one_arm_def)

lemma write_file_one_arm:
  assumes "fst (write_file os self w path content') = Inr r"
  shows "one_arm r"
proof (cases "\<exists>p c. path = Some p \<and> content' = Some c")
  case False
  then have "write_file os self w path content' =
      (Inr (error_response (- 32602) (u ''Path and content are required'')), w)"
    by (cases path; cases content') simp_all
  with assms have "r = error_response (- 32602) (u ''Path and content are required'')"
    by simp
  then show ?thesis by (simp add: one_arm_error)
next
  case True
  then obtain p c where pc: "path = Some p" "content' = Some c" by blast
  obtain b where b: "is_safe_path os self w p = Inr b"
    using is_safe_path_returns [of os self w p] by blast
  consider "p = []" | "p \<noteq> []" "\<not> b" | "p \<noteq> []" "b" by blast
  then show ?thesis
  proof cases
    case 1
    with assms pc have "r = error_response (- 32602) (u ''Path and content are required'')"
      by simp
    then show ?thesis by (simp add: one_arm_error)
  next
    case 2
    with assms pc b have "\<exists>c m. r = error_response c m"
      by auto
    then show ?thesis by (auto simp: one_arm_error)
  next
    case 3
    with assms pc b have "\<exists>ts bs md. r = \<lparr>tools_key = ts, content = Some bs, metadata = md, error = None\<rparr>"
      by auto
    then show ?thesis by (auto simp: one_arm_content)
  qed
qed

lemma call_tool_try_one_arm:
  assumes "fst (call_tool_try os self w tool_name arguments) = Inr r"
  shows "one_arm r"
proof -
  consider "tool_name = Some (u ''read_file'')"
    | "tool_name \<noteq> Some (u ''read_file'')" "tool_name = Some (u ''list_directory'')"
    | "tool_name \<noteq> Some (u ''read_file'')" "tool_name \<noteq> Some (u ''list_directory'')"
      "tool_name = Some (u ''write_file'')"
    | "tool_name \<noteq> Some (u ''read_file'')" "tool_name \<noteq> Some (u ''list_directory'')"
      "tool_name \<noteq> Some (u ''write_file'')"
    by blast
  then show ?thesis
  proof cases
    case 1
    with assms obtain m where "arguments = Dict m"
      by (cases arguments) (simp_all add: call_tool_try_def dict_get_def)
    with 1 assms have "fst (read_file os self w (m (u ''path''))) = Inr r"
      by (simp add: call_tool_try_def dict_get_def)
    then show ?thesis by (rule read_file_one_arm)
  next
    case 2
    with assms obtain m where "arguments = Dict m"
      by (cases arguments) (simp_all add: call_tool_try_def dict_get_def)
    with 2 assms have "fst (list_directory os self w (m (u ''path''))) = Inr r"
      by (simp add: call_tool_try_def dict_get_def)
    then show ?thesis by (rule list_directory_one_arm)
  next
    case 3
    with assms obtain m where "arguments = Dict m"
      by (cases arguments) (simp_all add: call_tool_try_def dict_get_def)
    with 3 assms have
      "fst (write_file os self w (m (u ''path'')) (m (u ''content''))) = Inr r"
      by (simp add: call_tool_try_def dict_get_def)
    then show ?thesis by (rule write_file_one_arm)
  next
    case 4
    with assms have "r = error_response (- 32602) (u ''Unknown tool: '' @ format_opt tool_name)"
      by (simp add: call_tool_try_def)
    then show ?thesis by (simp add: one_arm_error)
  qed
qed

lemma call_tool_one_arm:
  assumes "fst (call_tool os self w tool_name arguments) = Inr r"
  shows "one_arm r"
proof -
  obtain x w' where x: "call_tool_try os self w tool_name arguments = (x, w')"
    by (cases "call_tool_try os self w tool_name arguments")
  show ?thesis
  proof (cases x)
    case (Inl e)
    with assms x have "r = error_response (- 32603) (u ''Tool execution failed: '' @ str_exn e)"
      by (simp add: call_tool_def)
    then show ?thesis by (simp add: one_arm_error)
  next
    case (Inr r')
    with assms x have "fst (call_tool_try os self w tool_name arguments) = Inr r"
      by (simp add: call_tool_def)
    then show ?thesis by (rule call_tool_try_one_arm)
  qed
qed

lemma handle_tools_list:
  "handle_request os srv w (Dict \<lparr>req_method = Some (u ''tools/list''), req_params = ps\<rparr>)
     = (Inr \<lparr>tools_key = Some (tools srv), content = None, metadata = None, error = None\<rparr>, w)"
  by (simp add: handle_request_def)

lemma handle_request_one_arm:
  assumes "req_method req \<noteq> Some (u ''tools/list'')"
    and "fst (handle_request os self w (Dict req)) = Inr r"
  shows "one_arm r"
proof (cases "req_method req = Some (u ''tools/call'')")
  case True
  with assms obtain tn args where "fst (call_tool os self w tn args) = Inr r"
    by (auto simp: handle_request_def Let_def split: option.splits json_value.splits)
  then show ?thesis by (rule call_tool_one_arm)
next
  case False
  with assms have
    "r = error_response (- 32601) (u ''Method not found: '' @ format_opt (req_method req))"
    by (simp add: handle_request_def Let_def)
  then show ?thesis by (simp add: one_arm_error)
qed

text \<open>
  C4. Every response of the three handlers and of \<open>call_tool\<close> populates exactly one arm:
  it has \<open>content\<close> (with or without \<open>metadata\<close>) or \<open>error\<close>, never both and never
  neither, and a response with \<open>error\<close> has no \<open>content\<close> and no \<open>metadata\<close>. The same
  holds of what \<open>handle_request\<close> returns for a request with any method but
  \<open>tools/list\<close>. For \<open>tools/list\<close> the reply has the key \<open>tools\<close> and neither
  \<open>content\<close> nor \<open>error\<close>.
\<close>

theorem response_one_arm:
  "(fst (read_file os self w path) = Inr r \<longrightarrow> one_arm r)
   \<and> (fst (list_directory os self w path) = Inr r \<longrightarrow> one_arm r)
   \<and> (fst (write_file os self w path content') = Inr r \<longrightarrow> one_arm r)
   \<and> (fst (call_tool os self w tool_name arguments) = Inr r \<longrightarrow> one_arm r)
   \<and> (req_method req \<noteq> Some (u ''tools/list'')
        \<and> fst (handle_request os self w (Dict req)) = Inr r \<longrightarrow> one_arm r)
   \<and> fst (handle_request os self w (Dict \<lparr>req_method = Some (u ''tools/list''), req_params = ps\<rparr>))
       = Inr \<lparr>tools_key = Some (tools self), content = None, metadata = None, error = None\<rparr>"
proof (intro conjI impI)
  assume "fst (read_file os self w path) = Inr r"
  then show "one_arm r" by (rule read_file_one_arm)
next
  assume "fst (list_directory os self w path) = Inr r"
  then show "one_arm r" by (rule list_directory_one_arm)
next
  assume "fst (write_file os self w path content') = Inr r"
  then show "one_arm r" by (rule write_file_one_arm)
next
  assume "fst (call_tool os self w tool_name arguments) = Inr r"
  then show "one_arm r" by (rule call_tool_one_arm)
next
  assume "req_method req \<noteq> Some (u ''tools/list'')
        \<and> fst (handle_request os self w (Dict req)) = Inr r"
  then show "one_arm r" using handle_request_one_arm [of req os self w r] by simp
next
  show "fst (handle_request os self w (Dict \<lparr>req_method = Some (u ''tools/list''), req_params = ps\<rparr>))
       = Inr \<lparr>tools_key = Some (tools self), content = None, metadata = None, error = None\<rparr>"
    by (simp add: handle_tools_list)
qed

theorem response_one_arm_witness:
  "one_arm (error_response (- 32602) (u ''Path is required''))
   \<and> one_arm (error_response (- 32601) (u ''Method not found: '' @ u ''bogus''))
   \<and> (case fst (call_tool (example_os (Inr (u ''/srv/app'')) [] [])
                 (init (example_os (Inr (u ''/srv/app'')) [] []) []) [] (Some (u ''write_file''))
                 (Dict [u ''path'' \<mapsto> u ''test/x.txt'', u ''content'' \<mapsto> []])) of
          Inl e \<Rightarrow> False
        | Inr r \<Rightarrow> one_arm r)"
proof -
  let ?os = "example_os (Inr (u ''/srv/app'')) [] []"
  let ?srv = "init ?os []"
  let ?args = "Dict [u ''path'' \<mapsto> u ''test/x.txt'', u ''content'' \<mapsto> []]"
  let ?req = "\<lparr>req_method = Some (u ''bogus''), req_params = None\<rparr>"
  have read: "fst (read_file ?os ?srv [] None) = Inr (error_response (- 32602) (u ''Path is required''))"
    by simp
  from read response_one_arm [of ?os ?srv "[]" None "error_response (- 32602) (u ''Path is required'')"]
  have first: "one_arm (error_response (- 32602) (u ''Path is required''))"
    by blast
  have other: "u ''bogus'' \<noteq> u ''tools/list''" "u ''bogus'' \<noteq> u ''tools/call''"
    by (simp_all add: u_def)
  then have handled: "req_method ?req \<noteq> Some (u ''tools/list'')"
    "fst (handle_request ?os ?srv [] (Dict ?req))
       = Inr (error_response (- 32601) (u ''Method not found: '' @ u ''bogus''))"
    by (simp_all add: handle_request_def)
  from handled
    response_one_arm [of ?os ?srv "[]" _ "error_response (- 32601) (u ''Method not found: '' @ u ''bogus'')"
      _ _ _ ?req]
  have second: "one_arm (error_response (- 32601) (u ''Method not found: '' @ u ''bogus''))"
    by blast
  obtain r where r: "fst (call_tool ?os ?srv [] (Some (u ''write_file'')) ?args) = Inr r"
    using call_tool_returns [of ?os ?srv "[]" "Some (u ''write_file'')" ?args] by blast
  from r response_one_arm [of ?os ?srv "[]" _ r _ "Some (u ''write_file'')" ?args]
  have "one_arm r"
    by blast
  with r have third: "case fst (call_tool ?os ?srv [] (Some (u ''write_file'')) ?args) of
      Inl e \<Rightarrow> False | Inr r \<Rightarrow> one_arm r"
    by simp
  from first second third show ?thesis by blast
qed

theorem tools_list_reply_has_no_arm:
  "fst (handle_request (example_os (Inr (u ''/srv/app'')) [] [])
         (init (example_os (Inr (u ''/srv/app'')) [] []) []) []
         (Dict \<lparr>req_method = Some (u ''tools/list''), req_params = None\<rparr>))
     = Inr \<lparr>tools_key = Some (tools (init (example_os (Inr (u ''/srv/app'')) [] []) [])),
            content = None, metadata = None, error = None\<rparr>
   \<and> \<not> one_arm \<lparr>tools_key = Some (tools (init (example_os (Inr (u ''/srv/app'')) [] []) [])),
                  content = None, metadata = None, error = None\<rparr>"
  by (simp add: handle_tools_list one_arm_def)

subsection \<open>The dispatcher\<close>

lemma tool_names_distinct:
  "u ''read_file'' \<noteq> u ''list_directory''" "u ''read_file'' \<noteq> u ''write_file''"
  "u ''list_directory'' \<noteq> u ''write_file''"
  by (simp_all add: u_def)

lemma call_tool_catches:
  assumes "fst (call_tool_try os self w tool_name arguments) = Inl e"
  shows "fst (call_tool os self w tool_name arguments) =
           Inr (error_response (- 32603) (u ''Tool execution failed: '' @ str_exn e))"
proof -
  obtain x w' where x: "call_tool_try os self w tool_name arguments = (x, w')"
    by (cases "call_tool_try os self w tool_name arguments")
  with assms have "x = Inl e" by simp
  with x show ?thesis by (simp add: call_tool_def)
qed

text \<open>
  C3. \<open>call_tool\<close> never raises: for every tool name and every argument mapping (and
  for arguments that are not a dict as well) it returns a response. A name other than
  \<open>read_file\<close>, \<open>list_directory\<close> and \<open>write_file\<close> gives the error -32602 with the message \<open>Unknown tool:\<close> and the name. Whatever a handler
  raises (\<open>read_file\<close> and \<open>list_directory\<close> let through every exception but
  \<open>FileNotFoundError\<close> and \<open>PermissionError\<close>), and more generally whatever the body of
  the \<open>try\<close> raises, becomes the error -32603 whose message is
  \<open>Tool execution failed:\<close> followed by the text of the exception.
\<close>

theorem call_tool_never_raises:
  "(\<exists>r. fst (call_tool os self w tool_name arguments) = Inr r)
   \<and> (tool_name \<noteq> Some (u ''read_file'') \<and> tool_name \<noteq> Some (u ''list_directory'')
        \<and> tool_name \<noteq> Some (u ''write_file'') \<longrightarrow>
       fst (call_tool os self w tool_name arguments) =
         Inr (error_response (- 32602) (u ''Unknown tool: '' @ format_opt tool_name)))
   \<and> (tool_name = Some (u ''read_file'')
        \<and> fst (read_file os self w (m (u ''path''))) = Inl e \<longrightarrow>
       fst (call_tool os self w tool_name (Dict m)) =
         Inr (error_response (- 32603) (u ''Tool execution failed: '' @ str_exn e)))
   \<and> (tool_name = Some (u ''list_directory'')
        \<and> fst (list_directory os self w (m (u ''path''))) = Inl e \<longrightarrow>
       fst (call_tool os self w tool_name (Dict m)) =
         Inr (error_response (- 32603) (u ''Tool execution failed: '' @ str_exn e)))
   \<and> (fst (call_tool_try os self w tool_name arguments) = Inl e \<longrightarrow>
       fst (call_tool os self w tool_name arguments) =
         Inr (error_response (- 32603) (u ''Tool execution failed: '' @ str_exn e)))"
proof (intro conjI impI)
  show "\<exists>r. fst (call_tool os self w tool_name arguments) = Inr r"
    by (rule call_tool_returns)
next
  assume "tool_name \<noteq> Some (u ''read_file'') \<and> tool_name \<noteq> Some (u ''list_directory'')
        \<and> tool_name \<noteq> Some (u ''write_file'')"
  then show "fst (call_tool os self w tool_name arguments) =
         Inr (error_response (- 32602) (u ''Unknown tool: '' @ format_opt tool_name))"
    by (simp add: call_tool_def call_tool_try_def)
next
  assume "tool_name = Some (u ''read_file'')
        \<and> fst (read_file os self w (m (u ''path''))) = Inl e"
  then have "fst (call_tool_try os self w tool_name (Dict m)) = Inl e"
    by (simp add: call_tool_try_def dict_get_def)
  then show "fst (call_tool os self w tool_name (Dict m)) =
         Inr (error_response (- 32603) (u ''Tool execution failed: '' @ str_exn e))"
    by (rule call_tool_catches)
next
  assume "tool_name = Some (u ''list_directory'')
        \<and> fst (list_directory os self w (m (u ''path''))) = Inl e"
  then have "fst (call_tool_try os self w tool_name (Dict m)) = Inl e"
    using tool_names_distinct by (simp add: call_tool_try_def dict_get_def)
  then show "fst (call_tool os self w tool_name (Dict m)) =
         Inr (error_response (- 32603) (u ''Tool execution failed: '' @ str_exn e))"
    by (rule call_tool_catches)
next
  assume "fst (call_tool_try os self w tool_name arguments) = Inl e"
  then show "fst (call_tool os self w tool_name arguments) =
         Inr (error_response (- 32603) (u ''Tool execution failed: '' @ str_exn e))"
    by (rule call_tool_catches)
qed

theorem call_tool_never_raises_witness:
  "fst (read_file ((example_os (Inr (u ''/srv/app'')) [] [])
          \<lparr>open_read := \<lambda>w p. Inl (Exn OtherException (u ''[Errno 21] Is a directory''))\<rparr>)
        \<lparr>tools = [], safe_paths = [u ''/tmp/'']\<rparr> [] (Some (u ''/tmp/d'')))
     = Inl (Exn OtherException (u ''[Errno 21] Is a directory''))
   \<and> fst (call_tool ((example_os (Inr (u ''/srv/app'')) [] [])
          \<lparr>open_read := \<lambda>w p. Inl (Exn OtherException (u ''[Errno 21] Is a directory''))\<rparr>)
        \<lparr>tools = [], safe_paths = [u ''/tmp/'']\<rparr> [] (Some (u ''read_file''))
        (Dict [u ''path'' \<mapsto> u ''/tmp/d'']))
     = Inr (error_response (- 32603)
         (u ''Tool execution failed: '' @ u ''[Errno 21] Is a directory''))
   \<and> fst (call_tool (example_os (Inr (u ''/srv/app'')) [] [])
        \<lparr>tools = [], safe_paths = [u ''/tmp/'']\<rparr> [] (Some (u ''bogus_tool'')) (Dict Map.empty))
     = Inr (error_response (- 32602) (u ''Unknown tool: '' @ u ''bogus_tool''))
   \<and> fst (call_tool (example_os (Inr (u ''/srv/app'')) [] [])
        \<lparr>tools = [], safe_paths = [u ''/tmp/'']\<rparr> [] (Some (u ''read_file''))
        (NotDict (u ''NoneType'')))
     = Inr (error_response (- 32603)
         (u ''Tool execution failed: '' @ str_exn (attribute_error (u ''NoneType''))))"
proof -
  let ?e = "Exn OtherException (u ''[Errno 21] Is a directory'')"
  let ?os = "(example_os (Inr (u ''/srv/app'')) [] [])\<lparr>open_read := \<lambda>w p. Inl ?e\<rparr>"
  let ?plain = "example_os (Inr (u ''/srv/app'')) [] []"
  let ?srv = "\<lparr>tools = [], safe_paths = [u ''/tmp/'']\<rparr>"
  let ?m = "[u ''path'' \<mapsto> u ''/tmp/d'']"
  have safe: "is_safe_path ?os ?srv [] (u ''/tmp/d'') = Inr True"
    by code_simp
  have opened: "open_read ?os [] (u ''/tmp/d'') = Inl ?e"
    by code_simp
  have ne: "u ''/tmp/d'' \<noteq> []"
    by code_simp
  from safe opened ne have raised: "fst (read_file ?os ?srv [] (Some (u ''/tmp/d''))) = Inl ?e"
    by simp
  have arg: "?m (u ''path'') = Some (u ''/tmp/d'')"
    by simp
  from raised arg
    call_tool_never_raises [of ?os ?srv "[]" "Some (u ''read_file'')" _ ?m ?e]
  have caught: "fst (call_tool ?os ?srv [] (Some (u ''read_file'')) (Dict ?m))
      = Inr (error_response (- 32603) (u ''Tool execution failed: '' @ str_exn ?e))"
    by simp
  have other: "Some (u ''bogus_tool'') \<noteq> Some (u ''read_file'')"
    "Some (u ''bogus_tool'') \<noteq> Some (u ''list_directory'')"
    "Some (u ''bogus_tool'') \<noteq> Some (u ''write_file'')"
    by (simp_all add: u_def)
  from other
    call_tool_never_raises [of ?plain ?srv "[]" "Some (u ''bogus_tool'')" "Dict Map.empty"]
  have unknown: "fst (call_tool ?plain ?srv [] (Some (u ''bogus_tool'')) (Dict Map.empty))
      = Inr (error_response (- 32602) (u ''Unknown tool: '' @ format_opt (Some (u ''bogus_tool''))))"
    by blast
  have "fst (call_tool_try ?plain ?srv [] (Some (u ''read_file'')) (NotDict (u ''NoneType'')))
      = Inl (attribute_error (u ''NoneType''))"
    by (simp add: call_tool_try_def dict_get_def)
  with call_tool_never_raises [of ?plain ?srv "[]" "Some (u ''read_file'')"
      "NotDict (u ''NoneType'')" _ "attribute_error (u ''NoneType'')"]
  have not_dict: "fst (call_tool ?plain ?srv [] (Some (u ''read_file'')) (NotDict (u ''NoneType'')))
      = Inr (error_response (- 32603)
          (u ''Tool execution failed: '' @ str_exn (attribute_error (u ''NoneType''))))"
    by blast
  from raised caught unknown not_dict show ?thesis by simp
qed

lemma main_loop_append:
  "main_loop os srv w (xs @ ys) =
     (fst (main_loop os srv w xs) @ fst (main_loop os srv (snd (main_loop os srv w xs)) ys),
      snd (main_loop os srv (snd (main_loop os srv w xs)) ys))"
proof (induction xs arbitrary: w)
  case Nil
  then show ?case by simp
next
  case (Cons x xs)
  show ?case
  proof (cases x)
    case NotJson
    with Cons.IH [of w] show ?thesis
      by (simp add: case_prod_beta)
  next
    case (Json request)
    obtain res w1 where h: "handle_request os srv w request = (res, w1)"
      by (cases "handle_request os srv w request")
    with Json Cons.IH [of w1] show ?thesis
      by (cases res) (simp_all add: case_prod_beta)
  qed
qed

text \<open>
  C7. \<open>tools/list\<close> always succeeds: for every world, and whatever the parameters of the
  request, \<open>handle_request\<close> returns the catalogue that \<open>__init__\<close> built, which holds
  exactly three descriptors, named \<open>read_file\<close>, \<open>list_directory\<close> and \<open>write_file\<close>.
  The answer does not depend on earlier requests: after any sequence of input lines, the
  response that \<open>main\<close> prints for a \<open>tools/list\<close> request is that same catalogue.
\<close>

theorem tools_list_fixed:
  "fst (handle_request os (init os' w') w
         (Dict \<lparr>req_method = Some (u ''tools/list''), req_params = ps\<rparr>))
     = Inr \<lparr>tools_key = Some (tools (init os' w')), content = None, metadata = None, error = None\<rparr>
   \<and> map name (tools (init os' w')) = [u ''read_file'', u ''list_directory'', u ''write_file'']
   \<and> last (fst (main os w
         (history @ [Json (Dict \<lparr>req_method = Some (u ''tools/list''), req_params = ps\<rparr>)])))
     = \<lparr>tools_key = Some (tools (init os w)), content = None, metadata = None, error = None\<rparr>"
proof (intro conjI)
  show "fst (handle_request os (init os' w') w
         (Dict \<lparr>req_method = Some (u ''tools/list''), req_params = ps\<rparr>))
     = Inr \<lparr>tools_key = Some (tools (init os' w')), content = None, metadata = None, error = None\<rparr>"
    by (simp add: handle_tools_list)
  show "map name (tools (init os' w')) = [u ''read_file'', u ''list_directory'', u ''write_file'']"
    by (simp add: init_def)
  show "last (fst (main os w
         (history @ [Json (Dict \<lparr>req_method = Some (u ''tools/list''), req_params = ps\<rparr>)])))
     = \<lparr>tools_key = Some (tools (init os w)), content = None, metadata = None, error = None\<rparr>"
    by (simp add: main_def main_loop_append handle_tools_list)
qed

theorem tools_list_fixed_witness:
  "last (fst (main (example_os (Inr (u ''/srv/app'')) [] []) []
        [NotJson,
         Json (NotDict (u ''int'')),
         Json (Dict \<lparr>req_method = Some (u ''tools/call''),
                     req_params = Some (NotDict (u ''NoneType''))\<rparr>),
         Json (Dict \<lparr>req_method = Some (u ''tools/call''),
                     req_params = Some (Dict \<lparr>params_name = Some (u ''write_file''),
                       params_arguments =
                         Some (Dict [u ''path'' \<mapsto> u ''test/x.txt'', u ''content'' \<mapsto> []])\<rparr>)\<rparr>),
         Json (Dict \<lparr>req_method = Some (u ''tools/list''),
                     req_params = Some (NotDict (u ''NoneType''))\<rparr>)]))
     = \<lparr>tools_key = Some (tools (init (example_os (Inr (u ''/srv/app'')) [] []) [])),
        content = None, metadata = None, error = None\<rparr>
   \<and> length (tools (init (example_os (Inr (u ''/srv/app'')) [] []) [])) = 3"
proof -
  let ?os = "example_os (Inr (u ''/srv/app'')) [] []"
  let ?null = "Json (Dict \<lparr>req_method = Some (u ''tools/call''),
                     req_params = Some (NotDict (u ''NoneType''))\<rparr>)"
  let ?call = "Json (Dict \<lparr>req_method = Some (u ''tools/call''),
                     req_params = Some (Dict \<lparr>params_name = Some (u ''write_file''),
                       params_arguments =
                         Some (Dict [u ''path'' \<mapsto> u ''test/x.txt'', u ''content'' \<mapsto> []])\<rparr>)\<rparr>)"
  note inst = tools_list_fixed [of ?os ?os "[]" "[]" "Some (NotDict (u ''NoneType''))"
      "[NotJson, Json (NotDict (u ''int'')), ?null, ?call]"]
  from inst have "length (map name (tools (init ?os []))) = 3"
    by simp
  then have three: "length (tools (init ?os [])) = 3"
    by simp
  from inst have "last (fst (main ?os []
        ([NotJson, Json (NotDict (u ''int'')), ?null, ?call]
         @ [Json (Dict \<lparr>req_method = Some (u ''tools/list''),
                          req_params = Some (NotDict (u ''NoneType''))\<rparr>)])))
     = \<lparr>tools_key = Some (tools (init ?os [])), content = None, metadata = None, error = None\<rparr>"
    by blast
  with three show ?thesis by simp
qed

subsection \<open>The order of a directory listing\<close>

lemma directory_not_file: "u ''directory'' \<noteq> u ''file''"
  by (simp add: u_def)

lemma list_entries_types:
  "list_entries os w path names = Inr entries \<Longrightarrow>
     \<forall>x\<in>set entries. (is_directory x \<or> is_file x)"
proof (induction names arbitrary: entries)
  case Nil
  then show ?case by simp
next
  case (Cons e es)
  then show ?case
    by (auto simp: Let_def is_directory_def is_file_def split: sum.splits if_splits)
qed

lemma list_entries_names:
  "list_entries os w path names = Inr entries \<Longrightarrow> map entry_name entries = names"
proof (induction names arbitrary: entries)
  case Nil
  then show ?case by simp
next
  case (Cons e es)
  then show ?case
    by (auto simp: Let_def split: sum.splits if_splits)
qed

lemma render_entry_append: "render_entry t x = t @ render_entry [] x"
  by (simp add: render_entry_def Let_def)

lemma foldl_render_entry:
  "foldl render_entry t es = t @ concat (map (render_entry []) es)"
proof (induction es arbitrary: t)
  case Nil
  then show ?case by simp
next
  case (Cons x xs)
  have "foldl render_entry t (x # xs) = foldl render_entry (render_entry t x) xs"
    by simp
  also have "\<dots> = render_entry t x @ concat (map (render_entry []) xs)"
    by (rule Cons.IH)
  also have "\<dots> = t @ concat (map (render_entry []) (x # xs))"
    using render_entry_append [of t x] by simp
  finally show ?case .
qed

lemma sorted_keys_same_kind:
  assumes "sorted (map entry_name xs)" and "\<forall>x\<in>set xs. (entry_type x = u ''file'') = b"
  shows "sorted (map entry_key xs)"
  using assms
  by (induction xs) (auto simp: entry_key_def less_eq_prod_def)

lemma sort_entries_split:
  assumes kinds: "\<forall>x\<in>set es. (is_directory x \<or> is_file x)"
  shows "sort_key entry_key es =
           sort_key entry_name (filter is_directory es) @ sort_key entry_name (filter is_file es)"
proof (rule properties_for_sort_key)
  let ?D = "sort_key entry_name (filter is_directory es)"
  let ?F = "sort_key entry_name (filter is_file es)"
  have excl: "\<And>x. is_directory x \<Longrightarrow> \<not> is_file x"
    using directory_not_file by (auto simp: is_directory_def is_file_def)
  have file_eq: "filter is_file es = filter (\<lambda>x. \<not> is_directory x) es"
    using kinds excl by (intro filter_cong) auto
  show "mset (?D @ ?F) = mset es"
    by (simp add: file_eq)
  have setD: "\<And>x. x \<in> set ?D \<Longrightarrow> is_directory x" and setF: "\<And>x. x \<in> set ?F \<Longrightarrow> is_file x"
    by auto
  show "sorted (map entry_key (?D @ ?F))"
  proof -
    have "sorted (map entry_key ?D)"
      by (rule sorted_keys_same_kind [where b = False]) (use excl in \<open>auto simp: is_file_def\<close>)
    moreover have "sorted (map entry_key ?F)"
      by (rule sorted_keys_same_kind [where b = True]) (auto simp: is_file_def)
    moreover have "\<forall>x\<in>set ?D. \<forall>y\<in>set ?F. entry_key x \<le> entry_key y"
      using excl by (auto simp: entry_key_def less_eq_prod_def is_file_def)
    ultimately show ?thesis
      by (simp add: sorted_append)
  qed
  fix k assume "k \<in> set (?D @ ?F)"
  then consider "k \<in> set ?D" | "k \<in> set ?F" by auto
  then show "filter (\<lambda>x. entry_key k = entry_key x) (?D @ ?F) = filter (\<lambda>x. entry_key k = entry_key x) es"
  proof cases
    case 1
    then have kd: "is_directory k" by auto
    then have knf: "entry_type k \<noteq> u ''file''" using excl by (auto simp: is_file_def)
    have "filter (\<lambda>x. entry_key k = entry_key x) ?F = []"
      using knf by (auto simp: filter_empty_conv entry_key_def is_file_def)
    moreover have "filter (\<lambda>x. entry_key k = entry_key x) ?D = filter (\<lambda>x. entry_name x = entry_name k) ?D"
      using knf excl by (intro filter_cong) (auto simp: entry_key_def is_file_def)
    moreover have "filter (\<lambda>x. entry_name x = entry_name k) ?D = filter (\<lambda>x. entry_name x = entry_name k) (filter is_directory es)"
      by (rule sort_key_stable)
    moreover have "filter (\<lambda>x. entry_name x = entry_name k) (filter is_directory es) = filter (\<lambda>x. entry_key k = entry_key x) es"
      unfolding filter_filter using knf excl kinds
      by (intro filter_cong) (auto simp: entry_key_def is_file_def)
    ultimately show ?thesis by simp
  next
    case 2
    then have kf: "entry_type k = u ''file''" by (auto simp: is_file_def)
    have "filter (\<lambda>x. entry_key k = entry_key x) ?D = []"
      using kf excl by (auto simp: filter_empty_conv entry_key_def is_file_def)
    moreover have "filter (\<lambda>x. entry_key k = entry_key x) ?F = filter (\<lambda>x. entry_name x = entry_name k) ?F"
      using kf by (intro filter_cong) (auto simp: entry_key_def is_file_def)
    moreover have "filter (\<lambda>x. entry_name x = entry_name k) ?F = filter (\<lambda>x. entry_name x = entry_name k) (filter is_file es)"
      by (rule sort_key_stable)
    moreover have "filter (\<lambda>x. entry_name x = entry_name k) (filter is_file es) = filter (\<lambda>x. entry_key k = entry_key x) es"
      unfolding filter_filter using kf
      by (intro filter_cong) (auto simp: entry_key_def is_file_def)
    ultimately show ?thesis by simp
  qed
qed

text \<open>
  C6. When \<open>list_directory\<close> lists a directory (the path passes the guard, \<open>os.listdir\<close>
  returns the names and every size can be read), the text is the header followed by one
  line per entry, all directories first and all files after them, the directories in
  ascending order of their names and so the files; the lines are a rearrangement of the
  entries, one for each name listed. Names are compared as Python compares strings. For
  the names \<open>b.txt\<close>, \<open>a_dir\<close> (a directory) and \<open>c.txt\<close> the order is \<open>a_dir\<close>,
  \<open>b.txt\<close>, \<open>c.txt\<close>.
\<close>

theorem list_directory_order:
  assumes "path \<noteq> []"
    and "is_safe_path os self w path = Inr True"
    and "listdir os w path = Inr names"
    and "list_entries os w path names = Inr entries"
  shows "fst (list_directory os self w (Some path)) =
           Inr (text_response
             (u ''Contents of directory '' @ path @ u '':'' @ nl @ nl
              @ concat (map (render_entry [])
                  (sort_key entry_name (filter is_directory entries)
                   @ sort_key entry_name (filter is_file entries)))))
         \<and> sorted (map entry_name (sort_key entry_name (filter is_directory entries)))
         \<and> sorted (map entry_name (sort_key entry_name (filter is_file entries)))
         \<and> mset (sort_key entry_name (filter is_directory entries)
                 @ sort_key entry_name (filter is_file entries)) = mset entries
         \<and> map entry_name entries = names"
proof -
  have kinds: "\<forall>x\<in>set entries. (is_directory x \<or> is_file x)"
    using assms(4) by (rule list_entries_types)
  have order: "sort_key entry_key entries =
      sort_key entry_name (filter is_directory entries) @ sort_key entry_name (filter is_file entries)"
    using kinds by (rule sort_entries_split)
  have "list_directory_try os w path =
      Inr (text_response (foldl render_entry (u ''Contents of directory '' @ path @ u '':'' @ nl @ nl)
             (sort_key entry_key entries)))"
    using assms(3,4) by (simp add: list_directory_try_def)
  then have shown: "fst (list_directory os self w (Some path)) =
      Inr (text_response
             (u ''Contents of directory '' @ path @ u '':'' @ nl @ nl
              @ concat (map (render_entry [])
                  (sort_key entry_name (filter is_directory entries)
                   @ sort_key entry_name (filter is_file entries)))))"
    using assms(1,2) by (simp add: foldl_render_entry order)
  have "mset (sort_key entry_key entries) = mset entries"
    by simp
  then have same: "mset (sort_key entry_name (filter is_directory entries)
                 @ sort_key entry_name (filter is_file entries)) = mset entries"
    by (simp only: order)
  have names: "map entry_name entries = names"
    using assms(4) by (rule list_entries_names)
  from shown same names show ?thesis
    by simp
qed

theorem list_directory_order_witness:
  "fst (list_directory
          (example_os (Inr (u ''/srv/app'')) [u ''b.txt'', u ''a_dir'', u ''c.txt''] [u ''/tmp/d/a_dir''])
          \<lparr>tools = [], safe_paths = [u ''/tmp/'']\<rparr>
          [(u ''/tmp/d/b.txt'', u ''hello''), (u ''/tmp/d/c.txt'', u ''xy'')]
          (Some (u ''/tmp/d'')))
     = Inr (text_response
         (u ''Contents of directory '' @ u ''/tmp/d'' @ u '':'' @ nl @ nl
          @ folder_icon @ u '' a_dir'' @ nl
          @ page_icon @ u '' b.txt (5 bytes)'' @ nl
          @ page_icon @ u '' c.txt (2 bytes)'' @ nl))"
proof -
  let ?os = "example_os (Inr (u ''/srv/app'')) [u ''b.txt'', u ''a_dir'', u ''c.txt''] [u ''/tmp/d/a_dir'']"
  let ?srv = "\<lparr>tools = [], safe_paths = [u ''/tmp/'']\<rparr>"
  let ?w = "[(u ''/tmp/d/b.txt'', u ''hello''), (u ''/tmp/d/c.txt'', u ''xy'')]"
  let ?names = "[u ''b.txt'', u ''a_dir'', u ''c.txt'']"
  let ?entries = "[\<lparr>entry_name = u ''b.txt'', entry_type = u ''file'', entry_size = 5\<rparr>,
                   \<lparr>entry_name = u ''a_dir'', entry_type = u ''directory'', entry_size = 0\<rparr>,
                   \<lparr>entry_name = u ''c.txt'', entry_type = u ''file'', entry_size = 2\<rparr>]"
  have ne: "u ''/tmp/d'' \<noteq> []"
    by code_simp
  have safe: "is_safe_path ?os ?srv ?w (u ''/tmp/d'') = Inr True"
    by code_simp
  have listed: "listdir ?os ?w (u ''/tmp/d'') = Inr ?names"
    by code_simp
  have entries: "list_entries ?os ?w (u ''/tmp/d'') ?names = Inr ?entries"
    by code_simp
  have rendered:
    "concat (map (render_entry [])
       (sort_key entry_name (filter is_directory ?entries)
        @ sort_key entry_name (filter is_file ?entries)))
     = folder_icon @ u '' a_dir'' @ nl
          @ page_icon @ u '' b.txt (5 bytes)'' @ nl
          @ page_icon @ u '' c.txt (2 bytes)'' @ nl"
    by (simp add: is_directory_def is_file_def u_def render_entry_def Let_def nl_def)
  from list_directory_order [OF ne safe listed entries]
  have "fst (list_directory ?os ?srv ?w (Some (u ''/tmp/d''))) =
           Inr (text_response
             (u ''Contents of directory '' @ u ''/tmp/d'' @ u '':'' @ nl @ nl
              @ concat (map (render_entry [])
                  (sort_key entry_name (filter is_directory ?entries)
                   @ sort_key entry_name (filter is_file ?entries)))))"
    by blast
  then show ?thesis
    by (simp only: rendered)
qed

end
